theory Spec2Isabelle
  imports Complex_Main "HOL-Library.Word"
begin

section \<open>Python values\<close>

text \<open>
  The development embeds \<^verbatim>\<open>recommendation_engine.py\<close>. A Python \<^verbatim>\<open>str\<close> is a
  \<^typ>\<open>string\<close>; one \<^typ>\<open>char\<close> stands for one character of the text. Exceptions are
  values of the type \<open>error\<close>, and a call that may raise returns \<open>error + 'a\<close>
  with \<open>Inl\<close> for the exception.

  The first four constructors are the Python exceptions the modelled code raises itself.
  \<open>ExternalError\<close> stands for whatever a library call (model loading, encoding, index
  input and output, the generation service) raises. The last four constructors are the error names of the
  specification's taxonomy; the source defines none of these classes and no definition
  below constructs them.
\<close>

datatype error =
    FileNotFoundError string
  | IndexError
  | ValueError
  | AssertionError
  | ExternalError string
  | ConfigurationError
  | NotFoundError int
  | ModelLoadError
  | GenerationError

subsection \<open>Rendering integers: \<^verbatim>\<open>str(n)\<close>\<close>

text \<open>The character of a digit; it is only ever applied to a number below ten.\<close>

definition digit_char :: "nat \<Rightarrow> char" where
  "digit_char d = ''0123456789'' ! d"



fun str_nat :: "nat \<Rightarrow> string" where
  "str_nat n = (if n < 10 then [digit_char n] else str_nat (n div 10) @ [digit_char (n mod 10)])"

declare str_nat.simps [simp del]

definition str_int :: "int \<Rightarrow> string" where
  "str_int n = (if n < 0 then ''-'' @ str_nat (nat (- n)) else str_nat (nat n))"




subsection \<open>Finite floats and \<^verbatim>\<open>format(x, '.Nf')\<close>\<close>

text \<open>
  A finite IEEE double is a sign, a mantissa and a binary exponent, with the value
  \<open>(-1)\<^sup>s * m * 2\<^sup>e\<close>; \<open>float_abs\<close> is its magnitude as a rational number. NaN and
  the infinities are not modelled: the only float in a customer profile is the
  debt-to-income ratio, which \<^verbatim>\<open>process_data.py\<close> computes as
  \<^verbatim>\<open>total_debt / income\<close> from finite values.
\<close>

datatype float64 = Float64 (negative: bool) (mantissa: nat) (exponent: int)


text \<open>The integer nearest to \<open>a / b\<close>, ties going to the even neighbour.\<close>

definition round_half_even_div :: "nat \<Rightarrow> nat \<Rightarrow> nat" where
  "round_half_even_div a b =
     (let q = a div b; r = a mod b
      in if b < 2 * r \<or> (2 * r = b \<and> odd q) then q + 1 else q)"

text \<open>\<open>scaled p x\<close> is \<open>|x| * 10\<^sup>p\<close> rounded to the nearest integer, ties to even.\<close>

definition scaled :: "nat \<Rightarrow> float64 \<Rightarrow> nat" where
  "scaled p x =
     (if 0 \<le> exponent x then mantissa x * 2 ^ nat (exponent x) * 10 ^ p
      else round_half_even_div (mantissa x * 10 ^ p) (2 ^ nat (- exponent x)))"

definition zfill :: "nat \<Rightarrow> string \<Rightarrow> string" where
  "zfill w s = replicate (w - length s) (CHR ''0'') @ s"

text \<open>
  \<^verbatim>\<open>format(x, '.pf')\<close> prints the correctly rounded decimal with \<open>p\<close> fractional
  digits; the sign is kept even when the magnitude rounds to zero, and no decimal point
  is printed for \<open>p = 0\<close>.
\<close>

definition format_f :: "nat \<Rightarrow> float64 \<Rightarrow> string" where
  "format_f p x =
     (let n = scaled p x
      in (if negative x then ''-'' else '''')
         @ str_nat (n div 10 ^ p)
         @ (if p = 0 then '''' else ''.'' @ zfill p (str_nat (n mod 10 ^ p))))"

text \<open>
  \<^verbatim>\<open>float(n)\<close> for an integer: exact up to 53 bits, otherwise rounded to a 53-bit
  mantissa, ties to even. The integer columns of the profile table are 64-bit, so the
  conversion cannot overflow.
\<close>

fun bit_length :: "nat \<Rightarrow> nat" where
  "bit_length n = (if n = 0 then 0 else Suc (bit_length (n div 2)))"

declare bit_length.simps [simp del]

definition float_of_int :: "int \<Rightarrow> float64" where
  "float_of_int n =
     (let a = nat \<bar>n\<bar>; l = bit_length a
      in if l \<le> 53 then Float64 (n < 0) a 0
         else Float64 (n < 0) (round_half_even_div a (2 ^ (l - 53))) (int (l - 53)))"

section \<open>The query builder\<close>

text \<open>
  One row of the processed customer table. The integer columns are \<^verbatim>\<open>int64\<close>
  (\<^verbatim>\<open>generate_data.py\<close> draws them with \<^verbatim>\<open>randint\<close>, \<^verbatim>\<open>process_data.py\<close> adds
  two sums), the ratio is a float and the remaining two columns are text.
\<close>

record profile =
  customer_id :: "64 word"
  age :: "64 word"
  income :: "64 word"
  credit_score :: "64 word"
  debt_to_income_ratio :: float64
  product_count :: "64 word"
  existing_products :: string
  engagement_score :: "64 word"
  employment_status :: string

definition create_customer_query :: "profile \<Rightarrow> string" where
  "create_customer_query customer_data =
     ''Customer profile: ''
     @ ''Age '' @ str_int (sint (age customer_data)) @ ''. ''
     @ ''Income of $'' @ format_f 0 (float_of_int (sint (income customer_data))) @ ''. ''
     @ ''Credit score is '' @ str_int (sint (credit_score customer_data)) @ ''. ''
     @ ''Debt-to-income ratio is '' @ format_f 2 (debt_to_income_ratio customer_data) @ ''. ''
     @ ''Holds '' @ str_int (sint (product_count customer_data))
     @ '' products, including: '' @ existing_products customer_data @ ''. ''
     @ ''Digital engagement score is '' @ str_int (sint (engagement_score customer_data)) @ ''. ''
     @ ''Employment status: '' @ employment_status customer_data @ ''.''"

section \<open>Text operations of the knowledge-base loader\<close>

text \<open>
  \<^verbatim>\<open>str.isspace\<close> on the characters a \<^typ>\<open>char\<close> can carry (code points below 256):
  tab to carriage return, the four separators 28 to 31, the space, NEL and the no-break
  space.
\<close>

definition isspace :: "char \<Rightarrow> bool" where
  "isspace c = ((of_char c :: nat) \<in> {9, 10, 11, 12, 13, 28, 29, 30, 31, 32, 133, 160})"

text \<open>\<^verbatim>\<open>s.strip()\<close>: leading and trailing whitespace removed.\<close>

definition str_strip :: "string \<Rightarrow> string" where
  "str_strip s = rev (dropWhile isspace (rev (dropWhile isspace s)))"

text \<open>
  \<^verbatim>\<open>s.split(sep)\<close>: the text is cut at the leftmost occurrences of \<open>sep\<close>, scanning
  from the left, each search resuming after the previous occurrence. An empty separator
  raises \<^verbatim>\<open>ValueError\<close>.
\<close>

fun split_segments :: "string \<Rightarrow> string \<Rightarrow> string list" where
  "split_segments sep [] = [[]]"
| "split_segments sep (c # cs) =
     (if sep \<noteq> [] \<and> take (length sep) (c # cs) = sep
      then [] # split_segments sep (drop (length sep) (c # cs))
      else (case split_segments sep cs of
              [] \<Rightarrow> [[c]]
            | seg # rest \<Rightarrow> (c # seg) # rest))"

definition str_split :: "string \<Rightarrow> string \<Rightarrow> error + string list" where
  "str_split s sep = (if sep = [] then Inl ValueError else Inr (split_segments sep s))"

text \<open>\<^verbatim>\<open>sep.join(xs)\<close>, to state that splitting loses nothing.\<close>

fun join :: "string \<Rightarrow> string list \<Rightarrow> string" where
  "join sep [] = []"
| "join sep [x] = x"
| "join sep (x # y # ys) = x @ sep @ join sep (y # ys)"

text \<open>\<^verbatim>\<open>xs[i]\<close> for a Python list: a negative index counts from the end.\<close>

definition py_getitem :: "'a list \<Rightarrow> int \<Rightarrow> error + 'a" where
  "py_getitem xs i =
     (if 0 \<le> i \<and> i < int (length xs) then Inr (xs ! nat i)
      else if i < 0 \<and> - int (length xs) \<le> i then Inr (xs ! nat (int (length xs) + i))
      else Inl IndexError)"

text \<open>A list comprehension whose element expression may raise: the first exception wins.\<close>

fun collect :: "(error + 'a) list \<Rightarrow> error + 'a list" where
  "collect [] = Inr []"
| "collect (x # xs) =
     (case x of
        Inl e \<Rightarrow> Inl e
      | Inr v \<Rightarrow> (case collect xs of Inl e \<Rightarrow> Inl e | Inr vs \<Rightarrow> Inr (v # vs)))"

section \<open>The libraries the engine calls\<close>

text \<open>
  An array returned by the embedding model: either one-dimensional, of shape \<open>(n,)\<close>,
  or a matrix of shape \<open>(length rows, d)\<close> whose rows are the vectors.
\<close>

datatype 'v ndarray = Array1 nat | Array2 nat "'v list"

fun shape :: "'v ndarray \<Rightarrow> nat list" where
  "shape (Array1 n) = [n]"
| "shape (Array2 d rows) = [length rows, d]"

definition shape_at :: "'v ndarray \<Rightarrow> nat \<Rightarrow> error + nat" where
  "shape_at a i = (if i < length (shape a) then Inr (shape a ! i) else Inl IndexError)"

text \<open>
  Modelled from the spec: the flat vector index (\<^verbatim>\<open>faiss.IndexFlatL2\<close>, a library
  outside the repository). It records its dimensionality and stores the vectors in
  insertion order; \<^verbatim>\<open>add\<close> unpacks the array's shape into two values, asserts that
  the second one is the index's dimensionality and appends the rows.
\<close>

datatype 'v index = IndexFlatL2 (dim: nat) (stored: "'v list")

definition ntotal :: "'v index \<Rightarrow> nat" where
  "ntotal idx = length (stored idx)"

fun index_add :: "'v index \<Rightarrow> 'v ndarray \<Rightarrow> error + 'v index" where
  "index_add idx (Array1 n) = Inl ValueError"
| "index_add idx (Array2 d rows) =
     (if d = dim idx then Inr (IndexFlatL2 (dim idx) (stored idx @ rows)) else Inl AssertionError)"

text \<open>The generation request and its response.\<close>

record message =
  role :: string
  content :: string

record request =
  req_model :: string
  req_messages :: "message list"
  req_temperature :: float64

record choice =
  message :: message

record response =
  choices :: "choice list"

text \<open>
  Everything else the libraries do is a parameter of the embedding: loading the
  sentence-transformer model, encoding texts, reading and writing the binary index file,
  the nearest-neighbour search (which returns the distance rows and the label rows) and
  the chat-completion call of the generation service.
\<close>

record ('m, 'v, 'b) externals =
  SentenceTransformer :: "string \<Rightarrow> error + 'm"
  encode :: "'m \<Rightarrow> string list \<Rightarrow> error + 'v ndarray"
  read_index :: "'b \<Rightarrow> error + 'v index"
  write_index :: "'v index \<Rightarrow> error + 'b"
  search :: "'v index \<Rightarrow> 'v ndarray \<Rightarrow> nat \<Rightarrow> error + (float64 list list \<times> int list list)"
  create_completion :: "request \<Rightarrow> error + response"

section \<open>Building or loading the index\<close>

text \<open>
  The two files the function touches: the binary index at \<^verbatim>\<open>INDEX_PATH\<close>, holding a
  blob of the library's format, and the UTF-8 corpus at \<^verbatim>\<open>PRODUCT_KB_PATH\<close>.
  \<open>None\<close> is an absent file.
\<close>

record 'b files =
  index_file :: "'b option"
  kb_file :: "string option"

definition PRODUCT_KB_PATH :: string where
  "PRODUCT_KB_PATH = ''products.txt''"

definition INDEX_PATH :: string where
  "INDEX_PATH = ''faiss_index.bin''"

definition DELIMITER :: string where
  "DELIMITER = ''--------------------------------''"

text \<open>
  \<^verbatim>\<open>build_or_load_index\<close> returns its result and the files as it leaves them. The
  progress messages it prints are left out.
\<close>

definition build_or_load_index ::
  "('m, 'v, 'b) externals \<Rightarrow> 'b files \<Rightarrow> (error + 'v index \<times> 'm \<times> string list) \<times> 'b files" where
  "build_or_load_index ext fs =
     (case SentenceTransformer ext ''all-MiniLM-L6-v2'' of
        Inl e \<Rightarrow> (Inl e, fs)
      | Inr model \<Rightarrow>
         (case index_file fs of
            Some blob \<Rightarrow>
              (case read_index ext blob of
                 Inl e \<Rightarrow> (Inl e, fs)
               | Inr index \<Rightarrow>
                  (case kb_file fs of
                     None \<Rightarrow> (Inl (FileNotFoundError PRODUCT_KB_PATH), fs)
                   | Some text \<Rightarrow>
                      (case str_split text DELIMITER of
                         Inl e \<Rightarrow> (Inl e, fs)
                       | Inr product_texts \<Rightarrow> (Inr (index, model, product_texts), fs))))
          | None \<Rightarrow>
              (case kb_file fs of
                 None \<Rightarrow> (Inl (FileNotFoundError PRODUCT_KB_PATH), fs)
               | Some text \<Rightarrow>
                  (case str_split text DELIMITER of
                     Inl e \<Rightarrow> (Inl e, fs)
                   | Inr segments \<Rightarrow>
                      (let product_texts = [str_strip t. t \<leftarrow> segments, str_strip t \<noteq> []]
                       in case encode ext model product_texts of
                            Inl e \<Rightarrow> (Inl e, fs)
                          | Inr embeddings \<Rightarrow>
                             (case shape_at embeddings 1 of
                                Inl e \<Rightarrow> (Inl e, fs)
                              | Inr d \<Rightarrow>
                                 (case index_add (IndexFlatL2 d []) embeddings of
                                    Inl e \<Rightarrow> (Inl e, fs)
                                  | Inr index \<Rightarrow>
                                     (case write_index ext index of
                                        Inl e \<Rightarrow> (Inl e, fs)
                                      | Inr blob \<Rightarrow>
                                         (Inr (index, model, product_texts),
                                          fs\<lparr>index_file := Some blob\<rparr>)))))))))"

section \<open>The recommendation\<close>

text \<open>Line 87: the documents at the labels of the first result row, in that order.\<close>

definition retrieve :: "string list \<Rightarrow> int list list \<Rightarrow> error + string list" where
  "retrieve product_texts indices =
     (case py_getitem indices 0 of
        Inl e \<Rightarrow> Inl e
      | Inr row \<Rightarrow> collect (map (py_getitem product_texts) row))"

text \<open>
  Lines 89 to 91 print the first line of every retrieved document; \<^verbatim>\<open>splitlines\<close>
  of the empty text is the empty list, whose element 0 does not exist.
\<close>

definition print_retrieved :: "string list \<Rightarrow> error + unit" where
  "print_retrieved retrieved_docs = (if [] \<in> set retrieved_docs then Inl IndexError else Inr ())"

text \<open>Lines 93 to 109: the prompt template, cut at its four placeholders.\<close>

definition role_instruction :: string where
  "role_instruction = ''You are an expert banking relationship manager.''"

definition prompt_head :: string where
  "prompt_head = ''\<newline>    '' @ role_instruction @ '' Your task is to recommend the single best product for a customer based on their profile and a list of relevant products.\<newline>\<newline>    **Customer Profile:**\<newline>    ''"

definition prompt_products :: string where
  "prompt_products = ''\<newline>\<newline>    **Relevant Products (from our knowledge base):**\<newline>    1. ''"

definition prompt_task :: string where
  "prompt_task = ''\<newline>\<newline>    **Your Task:**\<newline>    Based on all of this information, what is the single best product to recommend to this customer? \<newline>    Provide a concise, one-paragraph justification explaining *why* it's the best fit, referencing the customer's profile.\<newline>    \<newline>    **Recommendation:**\<newline>    ''"

definition build_prompt :: "string \<Rightarrow> string list \<Rightarrow> error + string" where
  "build_prompt query_text retrieved_docs =
     (case py_getitem retrieved_docs 0 of
        Inl e \<Rightarrow> Inl e
      | Inr doc0 \<Rightarrow>
         (case py_getitem retrieved_docs 1 of
            Inl e \<Rightarrow> Inl e
          | Inr doc1 \<Rightarrow>
             (case py_getitem retrieved_docs 2 of
                Inl e \<Rightarrow> Inl e
              | Inr doc2 \<Rightarrow>
                 Inr (prompt_head @ query_text @ prompt_products @ doc0
                      @ ''\<newline>    2. '' @ doc1 @ ''\<newline>    3. '' @ doc2 @ prompt_task))))"

text \<open>
  \<^verbatim>\<open>get_recommendation\<close> returns its result together with the requests dispatched to
  the generation service so far: the last argument is the list before the call, and a
  request is appended at the moment it is sent. The parameter \<^verbatim>\<open>customer_id\<close> is
  called \<open>cid\<close> here, the name being taken by the column of the profile table; the
  lookup keeps the rows whose identifier equals it and takes the first.
\<close>

definition get_recommendation ::
  "('m, 'v, 'b) externals \<Rightarrow> int \<Rightarrow> profile list \<Rightarrow> 'v index \<Rightarrow> 'm \<Rightarrow> string list
     \<Rightarrow> request list \<Rightarrow> (error + string) \<times> request list" where
  "get_recommendation ext cid customer_df index model product_texts sent =
     (case filter (\<lambda>r. sint (customer_id r) = cid) customer_df of
        [] \<Rightarrow> (Inr ''Error: Customer ID not found.'', sent)
      | customer_data # _ \<Rightarrow>
         (let query_text = create_customer_query customer_data
          in case encode ext model [query_text] of
               Inl e \<Rightarrow> (Inl e, sent)
             | Inr query_vector \<Rightarrow>
                (case search ext index query_vector 3 of
                   Inl e \<Rightarrow> (Inl e, sent)
                 | Inr (distances, indices) \<Rightarrow>
                    (case retrieve product_texts indices of
                       Inl e \<Rightarrow> (Inl e, sent)
                     | Inr retrieved_docs \<Rightarrow>
                        (case print_retrieved retrieved_docs of
                           Inl e \<Rightarrow> (Inl e, sent)
                         | Inr _ \<Rightarrow>
                            (case build_prompt query_text retrieved_docs of
                               Inl e \<Rightarrow> (Inl e, sent)
                             | Inr prompt \<Rightarrow>
                                (let request =
                                       \<lparr>req_model = ''llama3-8b-8192'',
                                        req_messages = [\<lparr>role = ''user'', content = prompt\<rparr>],
                                        req_temperature = Float64 False 1 (- 1)\<rparr>
                                 in case create_completion ext request of
                                      Inl e \<Rightarrow> (Inl e, sent @ [request])
                                    | Inr response \<Rightarrow>
                                       (case py_getitem (choices response) 0 of
                                          Inl e \<Rightarrow> (Inl e, sent @ [request])
                                        | Inr c \<Rightarrow>
                                           (Inr (content (message c)), sent @ [request])))))))))"

section \<open>Stand-ins for the libraries\<close>

text \<open>
  To run the functions on concrete inputs the library parameters need values. The
  stand-in loads a unit model, embeds a text as itself (one column per row), keeps an
  index as its own blob, answers every search with the labels 2, 0, 1 and lets the
  generation service reply with a given text.
\<close>

definition demo_reply :: "string \<Rightarrow> response" where
  "demo_reply text = \<lparr>choices = [\<lparr>message = \<lparr>role = ''assistant'', content = text\<rparr>\<rparr>]\<rparr>"

definition demo_externals :: "string \<Rightarrow> (unit, string, string index) externals" where
  "demo_externals text =
     \<lparr>SentenceTransformer = (\<lambda>name. Inr ()),
      encode = (\<lambda>m texts. Inr (if texts = [] then Array1 0 else Array2 1 texts)),
      read_index = Inr,
      write_index = Inr,
      search = (\<lambda>idx q k. Inr ([[Float64 False 0 0, Float64 False 1 0, Float64 False 1 1]],
                                [[2, 0, 1]])),
      create_completion = (\<lambda>req. Inr (demo_reply text))\<rparr>"

text \<open>The profile of the specification's end-to-end scenario; 0.3 is the double
  \<open>5404319552844595 * 2\<^sup>-\<^sup>5\<^sup>4\<close>.\<close>

definition demo_profile :: profile where
  "demo_profile =
     \<lparr>customer_id = 1, age = 30, income = 60000, credit_score = 700,
      debt_to_income_ratio = Float64 False 5404319552844595 (- 54), product_count = 1,
      existing_products = ''Checking Account'', engagement_score = 20,
      employment_status = ''Employed''\<rparr>"

definition demo_docs :: "string list" where
  "demo_docs = [''Savings Account'', ''Business Loan'', ''Credit Card'']"

text \<open>The request the stand-in run is expected to send for \<open>demo_profile\<close>.\<close>

definition demo_request :: request where
  "demo_request =
     \<lparr>req_model = ''llama3-8b-8192'',
      req_messages =
        [\<lparr>role = ''user'',
          content = prompt_head @ create_customer_query demo_profile
            @ prompt_products @ ''Credit Card'' @ ''\<newline>    2. '' @ ''Savings Account''
            @ ''\<newline>    3. '' @ ''Business Loan'' @ prompt_task\<rparr>],
      req_temperature = Float64 False 1 (- 1)\<rparr>"

text \<open>A persisted index of two vectors and two corpora with the delimiter the code uses.\<close>

definition demo_index :: "string index" where
  "demo_index = IndexFlatL2 1 [''A'', ''B'']"

definition spaced_corpus :: string where
  "spaced_corpus = ''A '' @ DELIMITER @ '' \<newline> \<newline> B''"

definition trailing_corpus :: string where
  "trailing_corpus = ''A\<newline>'' @ DELIMITER @ ''\<newline>B\<newline>'' @ DELIMITER @ ''\<newline>''"

section \<open>Rendering the profile\<close>



























section \<open>An unknown customer\<close>

lemma get_recommendation_absent:
  assumes "cid \<notin> sint ` customer_id ` set customer_df"
  shows "get_recommendation ext cid customer_df index model product_texts sent
           = (Inr ''Error: Customer ID not found.'', sent)"
proof -
  have "filter (\<lambda>r. sint (customer_id r) = cid) customer_df = []"
    using assms by (auto simp: filter_empty_conv)
  then show ?thesis
    by (simp add: get_recommendation_def)
qed

text \<open>
  C5, as amended. For a customer identifier that no row of the profile table carries,
  \<^verbatim>\<open>get_recommendation\<close> does not raise: whatever the libraries are, it returns the
  fixed text \<^verbatim>\<open>Error: Customer ID not found.\<close> as its ordinary result, and the list
  of dispatched generation requests is unchanged.
\<close>

theorem unknown_customer_returns_message:
  assumes "cid \<notin> sint ` customer_id ` set customer_df"
  shows "get_recommendation ext cid customer_df index model product_texts sent
           = (Inr ''Error: Customer ID not found.'', sent)"
  using assms by (rule get_recommendation_absent)

theorem unknown_customer_returns_message_witness:
  "(7::int) \<notin> sint ` customer_id ` set [demo_profile]
   \<and> get_recommendation (demo_externals ''Take the Business Loan.'') 7 [demo_profile]
         (IndexFlatL2 1 demo_docs) () demo_docs []
       = (Inr ''Error: Customer ID not found.'', [])"
proof -
  have h: "(7::int) \<notin> sint ` customer_id ` set [demo_profile]"
    by (simp add: demo_profile_def)
  show ?thesis
    using h unknown_customer_returns_message [OF h] by simp
qed

text \<open>
  The claim as the specification words it fails: with customer 7 missing from the table
  the result is not the exception \<open>NotFoundError 7\<close>.
\<close>

theorem unknown_customer_not_found_error_counterexample:
  "fst (get_recommendation (demo_externals ''Take the Business Loan.'') 7 [demo_profile]
         (IndexFlatL2 1 demo_docs) () demo_docs []) \<noteq> Inl (NotFoundError 7)"
  by (simp add: get_recommendation_def demo_profile_def)

section \<open>The generation request\<close>

text \<open>What a successful retrieval and a successful prompt assembly say about their inputs.\<close>

lemma py_getitem_nat:
  "py_getitem xs (int k) = (if k < length xs then Inr (xs ! k) else Inl IndexError)"
  by (simp add: py_getitem_def)

lemma py_getitem_0_iff: "py_getitem xs 0 = Inr x \<longleftrightarrow> (\<exists>rest. xs = x # rest)"
  by (cases xs) (auto simp: py_getitem_def)

lemma collect_map_Inr: "collect (map Inr ys) = Inr ys"
  by (induction ys) auto

lemma collect_Inr_D: "collect rs = Inr ys \<Longrightarrow> rs = map Inr ys"
  by (induction rs arbitrary: ys) (auto split: sum.splits)

lemma retrieve_Inr:
  assumes "retrieve product_texts indices = Inr retrieved_docs"
  obtains row more where "indices = row # more"
    and "map (py_getitem product_texts) row = map Inr retrieved_docs"
proof -
  from assms obtain row where r: "py_getitem indices 0 = Inr row"
    and c: "collect (map (py_getitem product_texts) row) = Inr retrieved_docs"
    by (auto simp: retrieve_def split: sum.splits)
  from r obtain more where "indices = row # more"
    by (auto simp: py_getitem_0_iff)
  moreover from c have "map (py_getitem product_texts) row = map Inr retrieved_docs"
    by (rule collect_Inr_D)
  ultimately show thesis ..
qed

lemma build_prompt_Inr:
  assumes "build_prompt query_text retrieved_docs = Inr prompt"
  obtains doc_a doc_b doc_c others where "retrieved_docs = doc_a # doc_b # doc_c # others"
    and "prompt = prompt_head @ query_text @ prompt_products @ doc_a
                  @ ''\<newline>    2. '' @ doc_b @ ''\<newline>    3. '' @ doc_c @ prompt_task"
proof -
  have g1: "py_getitem retrieved_docs 1 = py_getitem retrieved_docs (int 1)"
    and g2: "py_getitem retrieved_docs 2 = py_getitem retrieved_docs (int 2)"
    by simp_all
  from assms have len: "2 < length retrieved_docs"
    and p: "prompt = prompt_head @ query_text @ prompt_products @ retrieved_docs ! 0
                  @ ''\<newline>    2. '' @ retrieved_docs ! 1 @ ''\<newline>    3. '' @ retrieved_docs ! 2 @ prompt_task"
    unfolding build_prompt_def g1 g2
    by (auto simp: py_getitem_nat py_getitem_def split: sum.splits if_splits)
  from len obtain doc_a doc_b doc_c others where "retrieved_docs = doc_a # doc_b # doc_c # others"
    by (cases retrieved_docs; cases "tl retrieved_docs"; cases "tl (tl retrieved_docs)") auto
  with p show thesis
    by (intro that) auto
qed


text \<open>
  Conversely, when the profile is found, the encoder and the search answer, every label of
  the first result row indexes \<open>product_texts\<close>, no retrieved document is empty and the
  service replies, the call dispatches that request and returns the reply.
\<close>

lemma get_recommendation_found:
  assumes "filter (\<lambda>r. sint (customer_id r) = cid) customer_df = customer_data # others"
    and "encode ext model [create_customer_query customer_data] = Inr query_vector"
    and "search ext index query_vector 3 = Inr (distances, (label_a # label_b # label_c # labels) # rows)"
    and "map (py_getitem product_texts) (label_a # label_b # label_c # labels)
           = map Inr (doc_a # doc_b # doc_c # docs)"
    and "[] \<notin> set (doc_a # doc_b # doc_c # docs)"
    and "request = \<lparr>req_model = ''llama3-8b-8192'',
                     req_messages =
                       [\<lparr>role = ''user'',
                         content = prompt_head @ create_customer_query customer_data
                           @ prompt_products @ doc_a @ ''\<newline>    2. '' @ doc_b
                           @ ''\<newline>    3. '' @ doc_c @ prompt_task\<rparr>],
                     req_temperature = Float64 False 1 (- 1)\<rparr>"
    and "create_completion ext request = Inr response"
    and "choices response = c # cs"
  shows "get_recommendation ext cid customer_df index model product_texts sent
           = (Inr (content (message c)), sent @ [request])"
proof -
  have r: "retrieve product_texts ((label_a # label_b # label_c # labels) # rows)
             = Inr (doc_a # doc_b # doc_c # docs)"
    unfolding retrieve_def using assms(4)
    by (simp add: py_getitem_def collect_map_Inr del: list.map)
  have p: "print_retrieved (doc_a # doc_b # doc_c # docs) = Inr ()"
    using assms(5) by (simp add: print_retrieved_def)
  have b: "build_prompt (create_customer_query customer_data) (doc_a # doc_b # doc_c # docs)
             = Inr (prompt_head @ create_customer_query customer_data
                           @ prompt_products @ doc_a @ ''\<newline>    2. '' @ doc_b
                           @ ''\<newline>    3. '' @ doc_c @ prompt_task)"
    by (simp add: build_prompt_def py_getitem_def)
  have c: "py_getitem (choices response) 0 = Inr c"
    using assms(8) by (simp add: py_getitem_def)
  show ?thesis
    unfolding get_recommendation_def assms(1)
    using assms(2,3,6,7) r p b c by (simp add: Let_def)
qed

lemma demo_found:
  "filter (\<lambda>r. sint (customer_id r) = 1) [demo_profile] = demo_profile # []"
  by (simp add: demo_profile_def)

lemma demo_run:
  "get_recommendation (demo_externals text) 1 [demo_profile] (IndexFlatL2 1 demo_docs) ()
     demo_docs [] = (Inr text, [demo_request])"
proof -
  have "get_recommendation (demo_externals text) 1 [demo_profile] (IndexFlatL2 1 demo_docs) ()
     demo_docs [] = (Inr (content (message \<lparr>message = \<lparr>role = ''assistant'', content = text\<rparr>\<rparr>)),
        [] @ [demo_request])"
    by (rule get_recommendation_found [where label_a = 2 and label_b = 0 and label_c = 1
          and labels = "[]" and docs = "[]" and rows = "[]" and cs = "[]", OF demo_found])
      (simp add: demo_externals_def demo_docs_def py_getitem_def demo_request_def
        demo_reply_def)+
  then show ?thesis by simp
qed

text \<open>
  The prompt reads \<^verbatim>\<open>retrieved_docs[0]\<close> to \<^verbatim>\<open>retrieved_docs[2]\<close> unconditionally: a
  search that answers with fewer than three labels makes the call fail with
  \<^verbatim>\<open>IndexError\<close> before anything is dispatched.
\<close>

lemma py_getitem_error: "py_getitem xs i = Inl e \<Longrightarrow> e = IndexError"
  by (auto simp: py_getitem_def split: if_splits)

lemma collect_getitem_error:
  "collect (map (py_getitem xs) row) = Inl e \<Longrightarrow> e = IndexError"
  by (induction row) (auto split: sum.splits dest: py_getitem_error)

lemma retrieve_length:
  assumes "retrieve product_texts indices = Inr retrieved_docs"
  shows "indices \<noteq> [] \<and> length retrieved_docs = length (hd indices)"
proof -
  from assms obtain row more where "indices = row # more"
    and "map (py_getitem product_texts) row = map Inr retrieved_docs"
    by (rule retrieve_Inr)
  then show ?thesis
    by (auto dest: map_eq_imp_length_eq)
qed

lemma build_prompt_short:
  assumes "length retrieved_docs < 3"
  shows "build_prompt query_text retrieved_docs = Inl IndexError"
proof -
  have "build_prompt query_text retrieved_docs \<noteq> Inr prompt" for prompt
  proof
    assume "build_prompt query_text retrieved_docs = Inr prompt"
    then obtain doc_a doc_b doc_c others where "retrieved_docs = doc_a # doc_b # doc_c # others"
      by (rule build_prompt_Inr)
    with assms show False by simp
  qed
  moreover have "build_prompt query_text retrieved_docs = Inl e \<Longrightarrow> e = IndexError" for e
    by (auto simp: build_prompt_def split: sum.splits dest: py_getitem_error)
  ultimately show ?thesis
    by (cases "build_prompt query_text retrieved_docs") auto
qed

lemma get_recommendation_short_row:
  assumes "filter (\<lambda>r. sint (customer_id r) = cid) customer_df = customer_data # others"
    and "encode ext model [create_customer_query customer_data] = Inr query_vector"
    and "search ext index query_vector 3 = Inr (distances, indices)"
    and "indices = [] \<or> length (hd indices) < 3"
  shows "get_recommendation ext cid customer_df index model product_texts sent
           = (Inl IndexError, sent)"
proof (cases "retrieve product_texts indices")
  case (Inl e)
  then have "e = IndexError"
    by (auto simp: retrieve_def split: sum.splits
        dest: py_getitem_error collect_getitem_error)
  with Inl assms(2,3) show ?thesis
    unfolding get_recommendation_def assms(1) by (simp add: Let_def)
next
  case (Inr retrieved_docs)
  with assms(4) have "length retrieved_docs < 3"
    by (auto dest: retrieve_length)
  then have "build_prompt (create_customer_query customer_data) retrieved_docs = Inl IndexError"
    by (rule build_prompt_short)
  with Inr assms(2,3) show ?thesis
    unfolding get_recommendation_def assms(1)
    by (simp add: Let_def print_retrieved_def)
qed

text \<open>
  C10. For a customer identifier absent from the profile table the function returns the
  literal text \<^verbatim>\<open>Error: Customer ID not found.\<close> as an ordinary result, on the
  channel and with the type of a generated recommendation: a run that did dispatch a
  request and got that very text back from the generation service returns the same
  value, so only the content of the string tells the two apart.
\<close>

theorem not_found_text_shares_the_result_channel:
  assumes "cid \<notin> sint ` customer_id ` set customer_df"
    and "get_recommendation ext' cid' customer_df' index' model' product_texts' sent'
           = (Inr ''Error: Customer ID not found.'', sent' @ [request])"
  shows "fst (get_recommendation ext cid customer_df index model product_texts sent)
           = Inr ''Error: Customer ID not found.''
         \<and> fst (get_recommendation ext cid customer_df index model product_texts sent)
           = fst (get_recommendation ext' cid' customer_df' index' model' product_texts' sent')"
  using assms by (simp add: get_recommendation_absent)

theorem not_found_text_shares_the_result_channel_witness:
  "(7::int) \<notin> sint ` customer_id ` set [demo_profile]
   \<and> get_recommendation (demo_externals ''Error: Customer ID not found.'') 1 [demo_profile]
         (IndexFlatL2 1 demo_docs) () demo_docs []
       = (Inr ''Error: Customer ID not found.'', [] @ [demo_request])
   \<and> fst (get_recommendation (demo_externals ''Take the Business Loan.'') 7 [demo_profile]
            (IndexFlatL2 1 demo_docs) () demo_docs [])
       = fst (get_recommendation (demo_externals ''Error: Customer ID not found.'') 1
            [demo_profile] (IndexFlatL2 1 demo_docs) () demo_docs [])"
proof -
  have h1: "(7::int) \<notin> sint ` customer_id ` set [demo_profile]"
    by (simp add: demo_profile_def)
  have h2: "get_recommendation (demo_externals ''Error: Customer ID not found.'') 1
              [demo_profile] (IndexFlatL2 1 demo_docs) () demo_docs []
            = (Inr ''Error: Customer ID not found.'', [] @ [demo_request])"
    unfolding append_Nil by (rule demo_run)
  show ?thesis
    using h1 h2 not_found_text_shares_the_result_channel [OF h1 h2,
        of "demo_externals ''Take the Business Loan.''" "IndexFlatL2 1 demo_docs" "()" demo_docs "[]"]
    by blast
qed




section \<open>The knowledge-base loader and the build-or-load policy\<close>

text \<open>The three ways through \<^verbatim>\<open>build_or_load_index\<close> once the model has loaded.\<close>

lemma DELIMITER_nonempty: "DELIMITER \<noteq> []"
  by (simp add: DELIMITER_def)

lemma str_split_DELIMITER: "str_split text DELIMITER = Inr (split_segments DELIMITER text)"
  by (simp add: str_split_def DELIMITER_nonempty)

lemma build_or_load_index_missing_corpus:
  assumes "SentenceTransformer ext ''all-MiniLM-L6-v2'' = Inr m"
    and "kb_file fs = None"
    and "\<forall>blob. index_file fs = Some blob \<longrightarrow> (\<exists>idx. read_index ext blob = Inr idx)"
  shows "build_or_load_index ext fs = (Inl (FileNotFoundError PRODUCT_KB_PATH), fs)"
  using assms by (auto simp: build_or_load_index_def split: option.splits)

lemma build_or_load_index_load:
  assumes "SentenceTransformer ext ''all-MiniLM-L6-v2'' = Inr m"
    and "index_file fs = Some blob"
    and "read_index ext blob = Inr idx"
    and "kb_file fs = Some text"
  shows "build_or_load_index ext fs = (Inr (idx, m, split_segments DELIMITER text), fs)"
  using assms by (simp add: build_or_load_index_def str_split_DELIMITER)

lemma build_or_load_index_fresh:
  assumes "SentenceTransformer ext ''all-MiniLM-L6-v2'' = Inr m"
    and "index_file fs = None"
    and "kb_file fs = Some text"
    and "encode ext m [str_strip t. t \<leftarrow> split_segments DELIMITER text, str_strip t \<noteq> []]
           = Inr (Array2 d rows)"
    and "write_index ext (IndexFlatL2 d rows) = Inr blob"
  shows "build_or_load_index ext fs
           = (Inr (IndexFlatL2 d rows, m,
                   [str_strip t. t \<leftarrow> split_segments DELIMITER text, str_strip t \<noteq> []]),
              fs\<lparr>index_file := Some blob\<rparr>)"
  using assms
  by (simp add: build_or_load_index_def str_split_DELIMITER shape_at_def Let_def)

text \<open>The stand-in runs used below.\<close>

lemmas eval_text = split_segments.simps str_strip_def isspace_def DELIMITER_def

lemma split_spaced: "split_segments DELIMITER spaced_corpus = [''A '', '' \<newline> \<newline> B'']"
  by (simp add: spaced_corpus_def eval_text)

lemma split_trailing:
  "split_segments DELIMITER trailing_corpus = [''A\<newline>'', ''\<newline>B\<newline>'', ''\<newline>'']"
  by (simp add: trailing_corpus_def eval_text)

lemma strip_examples:
  "str_strip ''A '' = ''A''" "str_strip '' \<newline> \<newline> B'' = ''B''"
  "str_strip ''A\<newline>'' = ''A''" "str_strip ''\<newline>B\<newline>'' = ''B''" "str_strip ''\<newline>'' = []"
  by (simp_all add: str_strip_def isspace_def)

lemma demo_model: "SentenceTransformer (demo_externals text) ''all-MiniLM-L6-v2'' = Inr ()"
  by (simp add: demo_externals_def)

lemma fresh_demo:
  "build_or_load_index (demo_externals ''ok'')
       \<lparr>index_file = None, kb_file = Some trailing_corpus\<rparr>
     = (Inr (demo_index, (), [''A'', ''B'']),
        \<lparr>index_file = Some demo_index, kb_file = Some trailing_corpus\<rparr>)"
proof -
  have "build_or_load_index (demo_externals ''ok'')
       \<lparr>index_file = None, kb_file = Some trailing_corpus\<rparr>
     = (Inr (IndexFlatL2 1 [''A'', ''B''], (),
          [str_strip t. t \<leftarrow> split_segments DELIMITER trailing_corpus, str_strip t \<noteq> []]),
        \<lparr>index_file = None, kb_file = Some trailing_corpus\<rparr>\<lparr>index_file := Some demo_index\<rparr>)"
    by (rule build_or_load_index_fresh [OF demo_model])
       (simp add: split_trailing strip_examples demo_externals_def demo_index_def)+
  then show ?thesis
    by (simp add: split_trailing strip_examples demo_index_def)
qed

lemma load_demo:
  "build_or_load_index (demo_externals ''ok'')
       \<lparr>index_file = Some demo_index, kb_file = Some text\<rparr>
     = (Inr (demo_index, (), split_segments DELIMITER text),
        \<lparr>index_file = Some demo_index, kb_file = Some text\<rparr>)"
  by (rule build_or_load_index_load [OF demo_model]) (simp add: demo_externals_def)+

text \<open>
  On the fresh-build path the index holds one vector per document, in document order,
  whenever the encoder returns the rows \<open>map vector_of texts\<close> for some embedding
  \<open>vector_of\<close>.
\<close>

lemma fresh_build_is_aligned:
  assumes "index_file fs = None"
    and "build_or_load_index ext fs = (Inr (idx, m, product_texts), fs')"
    and "\<forall>model texts d rows. encode ext model texts = Inr (Array2 d rows) \<longrightarrow> rows = map vector_of texts"
  shows "stored idx = map vector_of product_texts"
proof -
  from assms(1,2) obtain model embeddings d where
    e: "encode ext model product_texts = Inr embeddings"
    and s: "shape_at embeddings 1 = Inr d"
    and a: "index_add (IndexFlatL2 d []) embeddings = Inr idx"
    by (auto simp: build_or_load_index_def Let_def split: sum.splits option.splits)
  from s obtain rows where r: "embeddings = Array2 d rows"
    by (cases embeddings) (auto simp: shape_at_def)
  with a have "stored idx = rows" by auto
  moreover from e r assms(3) have "rows = map vector_of product_texts" by blast
  ultimately show ?thesis by simp
qed

text \<open>Splitting loses nothing: joining the segments with the separator gives the text back.\<close>

lemma split_segments_not_Nil: "split_segments sep s \<noteq> []"
  by (induction sep s rule: split_segments.induct) (auto split: list.splits)

lemma join_first_char: "join sep ((c # seg) # rest) = c # join sep (seg # rest)"
  by (cases rest) simp_all

lemma join_empty_first: "rest \<noteq> [] \<Longrightarrow> join sep ([] # rest) = sep @ join sep rest"
  by (cases rest) simp_all

lemma join_split_segments: "join sep (split_segments sep s) = s"
proof (induction sep s rule: split_segments.induct)
  case (1 sep)
  show ?case by simp
next
  case (2 sep c cs)
  show ?case
  proof (cases "sep \<noteq> [] \<and> take (length sep) (c # cs) = sep")
    case True
    with 2 have "join sep (split_segments sep (drop (length sep) (c # cs)))
                   = drop (length sep) (c # cs)"
      by blast
    then have "join sep ([] # split_segments sep (drop (length sep) (c # cs)))
                   = sep @ drop (length sep) (c # cs)"
      by (simp add: join_empty_first split_segments_not_Nil)
    also have "\<dots> = take (length sep) (c # cs) @ drop (length sep) (c # cs)"
      using True by simp
    also have "\<dots> = c # cs"
      by (rule append_take_drop_id)
    finally show ?thesis
      using True by simp
  next
    case False
    with 2 have ih: "join sep (split_segments sep cs) = cs"
      by blast
    obtain seg rest where s: "split_segments sep cs = seg # rest"
      using split_segments_not_Nil [of sep cs] by (cases "split_segments sep cs") auto
    from False have "split_segments sep (c # cs)
                       = (case split_segments sep cs of
                            [] \<Rightarrow> [[c]]
                          | seg # rest \<Rightarrow> (c # seg) # rest)"
      by auto
    with s have "split_segments sep (c # cs) = (c # seg) # rest"
      by simp
    with s ih show ?thesis
      by (simp only: join_first_char)
  qed
qed

text \<open>A stripped text that is not empty neither starts nor ends with whitespace.\<close>

lemma last_dropWhile: "dropWhile P xs \<noteq> [] \<Longrightarrow> last (dropWhile P xs) = last xs"
  by (induction xs) (auto split: if_splits)

lemma str_strip_trimmed:
  assumes "str_strip s \<noteq> []"
  shows "\<not> isspace (hd (str_strip s))" and "\<not> isspace (last (str_strip s))"
proof -
  define u where "u = dropWhile isspace s"
  define v where "v = dropWhile isspace (rev u)"
  have strip: "str_strip s = rev v"
    by (simp add: str_strip_def u_def v_def)
  with assms have v: "v \<noteq> []" by simp
  then have u: "u \<noteq> []" by (auto simp: v_def)
  from v have "\<not> isspace (hd v)"
    unfolding v_def by (rule hd_dropWhile)
  then show "\<not> isspace (last (str_strip s))"
    using v by (simp add: strip last_rev)
  from v have "last v = last (rev u)"
    unfolding v_def by (rule last_dropWhile)
  also have "\<dots> = hd u"
    using u by (simp add: last_rev)
  finally have "hd (str_strip s) = hd u"
    using v by (simp add: strip hd_rev)
  moreover from u have "\<not> isspace (hd u)"
    unfolding u_def by (rule hd_dropWhile)
  ultimately show "\<not> isspace (hd (str_strip s))" by simp
qed

text \<open>
  The documents of a fresh build are the stripped segments of the corpus, in order, the
  empty ones dropped; each is non-empty and trimmed.
\<close>

lemma fresh_build_documents:
  assumes "index_file fs = None"
    and "build_or_load_index ext fs = (Inr (idx, m, product_texts), fs')"
  obtains corpus where "kb_file fs = Some corpus"
    and "product_texts = filter (\<lambda>t. t \<noteq> []) (map str_strip (split_segments DELIMITER corpus))"
proof -
  from assms obtain corpus where k: "kb_file fs = Some corpus"
    and p: "product_texts = [str_strip t. t \<leftarrow> split_segments DELIMITER corpus, str_strip t \<noteq> []]"
    by (auto simp: build_or_load_index_def str_split_def Let_def
        split: sum.splits option.splits if_splits)
  have "[str_strip t. t \<leftarrow> segs, str_strip t \<noteq> []] = filter (\<lambda>t. t \<noteq> []) (map str_strip segs)"
    for segs
    by (induction segs) auto
  with k p show thesis
    by (intro that) auto
qed

lemma fresh_build_documents_trimmed:
  assumes "index_file fs = None"
    and "build_or_load_index ext fs = (Inr (idx, m, product_texts), fs')"
    and "t \<in> set product_texts"
  shows "t \<noteq> [] \<and> \<not> isspace (hd t) \<and> \<not> isspace (last t)"
proof -
  from assms(1,2) obtain corpus where
    "product_texts = filter (\<lambda>t. t \<noteq> []) (map str_strip (split_segments DELIMITER corpus))"
    by (rule fresh_build_documents)
  with assms(3) obtain seg where "t = str_strip seg" and "str_strip seg \<noteq> []"
    by auto
  then show ?thesis
    by (simp add: str_strip_trimmed)
qed

text \<open>
  A corpus without any non-blank segment is not rejected by the loader: the empty document
  list goes to the encoder. If the encoder raises, that exception is the result; if it
  answers with a one-dimensional array, \<^verbatim>\<open>embeddings.shape[1]\<close> raises
  \<^verbatim>\<open>IndexError\<close>.
\<close>

lemma build_or_load_index_fresh_steps:
  assumes "SentenceTransformer ext ''all-MiniLM-L6-v2'' = Inr m"
    and "index_file fs = None"
    and "kb_file fs = Some corpus"
    and "product_texts = [str_strip t. t \<leftarrow> split_segments DELIMITER corpus, str_strip t \<noteq> []]"
  shows "build_or_load_index ext fs
           = (case encode ext m product_texts of
                Inl e \<Rightarrow> (Inl e, fs)
              | Inr embeddings \<Rightarrow>
                 (case shape_at embeddings 1 of
                    Inl e \<Rightarrow> (Inl e, fs)
                  | Inr d \<Rightarrow>
                     (case index_add (IndexFlatL2 d []) embeddings of
                        Inl e \<Rightarrow> (Inl e, fs)
                      | Inr index \<Rightarrow>
                         (case write_index ext index of
                            Inl e \<Rightarrow> (Inl e, fs)
                          | Inr blob \<Rightarrow>
                             (Inr (index, m, product_texts), fs\<lparr>index_file := Some blob\<rparr>)))))"
  using assms(1,2,3) unfolding assms(4)
  by (simp add: build_or_load_index_def str_split_DELIMITER Let_def)

lemma empty_corpus_fresh_build:
  assumes "SentenceTransformer ext ''all-MiniLM-L6-v2'' = Inr m"
    and "index_file fs = None"
    and "kb_file fs = Some corpus"
    and "[] = [str_strip t. t \<leftarrow> split_segments DELIMITER corpus, str_strip t \<noteq> []]"
  shows "encode ext m [] = Inl e \<Longrightarrow> build_or_load_index ext fs = (Inl e, fs)"
    and "encode ext m [] = Inr (Array1 n) \<Longrightarrow> build_or_load_index ext fs = (Inl IndexError, fs)"
  unfolding build_or_load_index_fresh_steps [OF assms]
  by (simp_all add: shape_at_def)


text \<open>
  If reading a blob gives back the index that was written, the call after a fresh build
  returns the same index with the raw segments of the corpus; the two lists have the same
  length only when no segment is blank.
\<close>

lemma fresh_build_persists:
  assumes "SentenceTransformer ext ''all-MiniLM-L6-v2'' = Inr m"
    and "index_file fs = None"
    and "build_or_load_index ext fs = (Inr (idx, m', product_texts), fs')"
  obtains blob where "write_index ext idx = Inr blob" and "fs' = fs\<lparr>index_file := Some blob\<rparr>"
    and "m' = m"
  using assms
  by (auto simp: build_or_load_index_def Let_def split: sum.splits option.splits)

lemma reload_after_fresh_build:
  assumes "SentenceTransformer ext ''all-MiniLM-L6-v2'' = Inr m"
    and "index_file fs = None"
    and "build_or_load_index ext fs = (Inr (idx, m', product_texts), fs')"
    and "\<forall>i b. write_index ext i = Inr b \<longrightarrow> read_index ext b = Inr i"
  shows "\<exists>corpus. kb_file fs = Some corpus
           \<and> product_texts = filter (\<lambda>t. t \<noteq> []) (map str_strip (split_segments DELIMITER corpus))
           \<and> build_or_load_index ext fs' = (Inr (idx, m, split_segments DELIMITER corpus), fs')"
proof -
  from assms(2,3) obtain corpus where k: "kb_file fs = Some corpus"
    and p: "product_texts = filter (\<lambda>t. t \<noteq> []) (map str_strip (split_segments DELIMITER corpus))"
    by (rule fresh_build_documents)
  from assms(1,2,3) obtain blob where w: "write_index ext idx = Inr blob"
    and f: "fs' = fs\<lparr>index_file := Some blob\<rparr>"
    by (rule fresh_build_persists)
  from w assms(4) have "read_index ext blob = Inr idx" by blast
  with assms(1) k f have "build_or_load_index ext fs' = (Inr (idx, m, split_segments DELIMITER corpus), fs')"
    by (intro build_or_load_index_load [where blob = blob]) simp_all
  with k p show ?thesis by blast
qed

lemma length_filter_eq_iff:
  "length (filter Q xs) = length xs \<longleftrightarrow> (\<forall>x \<in> set xs. Q x)"
proof (induction xs)
  case Nil
  show ?case by simp
next
  case (Cons x xs)
  have "length (filter Q xs) \<noteq> Suc (length xs)"
    using length_filter_le [of Q xs] by linarith
  with Cons show ?case by auto
qed

lemma reload_is_aligned_iff:
  assumes "product_texts = filter (\<lambda>t. t \<noteq> []) (map str_strip segments)"
  shows "length product_texts = length segments \<longleftrightarrow> (\<forall>t \<in> set segments. str_strip t \<noteq> [])"
proof -
  have "length (filter (\<lambda>t. t \<noteq> []) (map str_strip segments))
          = length (filter (\<lambda>t. str_strip t \<noteq> []) segments)"
    by (simp add: filter_map comp_def)
  with assms show ?thesis
    by (simp add: length_filter_eq_iff)
qed

text \<open>
  C2, on the failing input. With no persisted index, the corpus
  \<^verbatim>\<open>A <delimiter> \n \n B\<close> gives the documents \<^verbatim>\<open>A\<close> and \<^verbatim>\<open>B\<close>, trimmed. The
  same corpus next to a persisted index gives the raw segments, with their surrounding
  whitespace: the load branch splits the text and neither strips nor filters.
\<close>

theorem load_path_returns_unstripped_segments:
  "build_or_load_index (demo_externals ''ok'')
       \<lparr>index_file = None, kb_file = Some spaced_corpus\<rparr>
     = (Inr (demo_index, (), [''A'', ''B'']),
        \<lparr>index_file = Some demo_index, kb_file = Some spaced_corpus\<rparr>)
   \<and> build_or_load_index (demo_externals ''ok'')
       \<lparr>index_file = Some demo_index, kb_file = Some spaced_corpus\<rparr>
     = (Inr (demo_index, (), [''A '', '' \<newline> \<newline> B'']),
        \<lparr>index_file = Some demo_index, kb_file = Some spaced_corpus\<rparr>)"
proof
  have "build_or_load_index (demo_externals ''ok'')
       \<lparr>index_file = None, kb_file = Some spaced_corpus\<rparr>
     = (Inr (IndexFlatL2 1 [''A'', ''B''], (),
          [str_strip t. t \<leftarrow> split_segments DELIMITER spaced_corpus, str_strip t \<noteq> []]),
        \<lparr>index_file = None, kb_file = Some spaced_corpus\<rparr>\<lparr>index_file := Some demo_index\<rparr>)"
    by (rule build_or_load_index_fresh [OF demo_model])
       (simp add: split_spaced strip_examples demo_externals_def demo_index_def)+
  then show "build_or_load_index (demo_externals ''ok'')
       \<lparr>index_file = None, kb_file = Some spaced_corpus\<rparr>
     = (Inr (demo_index, (), [''A'', ''B'']),
        \<lparr>index_file = Some demo_index, kb_file = Some spaced_corpus\<rparr>)"
    by (simp add: split_spaced strip_examples demo_index_def)
next
  have "build_or_load_index (demo_externals ''ok'')
       \<lparr>index_file = Some demo_index, kb_file = Some spaced_corpus\<rparr>
     = (Inr (demo_index, (), split_segments DELIMITER spaced_corpus),
        \<lparr>index_file = Some demo_index, kb_file = Some spaced_corpus\<rparr>)"
    by (rule build_or_load_index_load [OF demo_model]) (simp add: demo_externals_def)+
  then show "build_or_load_index (demo_externals ''ok'')
       \<lparr>index_file = Some demo_index, kb_file = Some spaced_corpus\<rparr>
     = (Inr (demo_index, (), [''A '', '' \<newline> \<newline> B'']),
        \<lparr>index_file = Some demo_index, kb_file = Some spaced_corpus\<rparr>)"
    by (simp add: split_spaced)
qed


text \<open>
  C4, on the failing input. A first call on a corpus whose last entry is followed by a
  delimiter line builds and persists an index of two vectors for two documents. The next
  call finds the persisted index and returns it with three documents, the raw segments of
  the same corpus: the index size is no longer the number of documents.
\<close>

theorem reload_returns_more_documents_than_vectors:
  "build_or_load_index (demo_externals ''ok'')
       \<lparr>index_file = None, kb_file = Some trailing_corpus\<rparr>
     = (Inr (demo_index, (), [''A'', ''B'']),
        \<lparr>index_file = Some demo_index, kb_file = Some trailing_corpus\<rparr>)
   \<and> build_or_load_index (demo_externals ''ok'')
       \<lparr>index_file = Some demo_index, kb_file = Some trailing_corpus\<rparr>
     = (Inr (demo_index, (), [''A\<newline>'', ''\<newline>B\<newline>'', ''\<newline>'']),
        \<lparr>index_file = Some demo_index, kb_file = Some trailing_corpus\<rparr>)
   \<and> ntotal demo_index = 2
   \<and> length [''A\<newline>'', ''\<newline>B\<newline>'', ''\<newline>''] = 3"
proof -
  have "ntotal demo_index = 2"
    by (simp add: ntotal_def demo_index_def)
  then show ?thesis
    by (simp add: fresh_demo load_demo split_trailing)
qed

text \<open>
  C8, as amended. Once the embedding model has loaded and a persisted index, if there is
  one, has been read, a missing corpus file makes the call fail with
  \<^verbatim>\<open>FileNotFoundError\<close> for \<^verbatim>\<open>products.txt\<close>, the files untouched. An empty corpus is
  not rejected: next to a persisted index the call succeeds for any corpus, blank or not.
\<close>

theorem missing_corpus_raises_file_not_found:
  assumes "SentenceTransformer ext ''all-MiniLM-L6-v2'' = Inr m"
    and "\<forall>blob. index_file fs = Some blob \<longrightarrow> (\<exists>idx. read_index ext blob = Inr idx)"
  shows "(kb_file fs = None
            \<longrightarrow> build_or_load_index ext fs = (Inl (FileNotFoundError ''products.txt''), fs))
       \<and> (kb_file fs = Some text \<and> index_file fs \<noteq> None
            \<longrightarrow> (\<exists>idx product_texts. build_or_load_index ext fs
                          = (Inr (idx, m, product_texts), fs)))"
proof (intro conjI impI)
  assume "kb_file fs = None"
  with assms show "build_or_load_index ext fs = (Inl (FileNotFoundError ''products.txt''), fs)"
    using build_or_load_index_missing_corpus [of ext m fs] by (simp add: PRODUCT_KB_PATH_def)
next
  assume "kb_file fs = Some text \<and> index_file fs \<noteq> None"
  then obtain blob where k: "kb_file fs = Some text" and b: "index_file fs = Some blob"
    by auto
  with assms(2) obtain idx where "read_index ext blob = Inr idx" by blast
  with assms(1) k b have "build_or_load_index ext fs
                          = (Inr (idx, m, split_segments DELIMITER text), fs)"
    using build_or_load_index_load [of ext m fs blob idx "text"] by simp
  then show "\<exists>idx product_texts. build_or_load_index ext fs
                          = (Inr (idx, m, product_texts), fs)"
    by blast
qed

theorem missing_corpus_raises_file_not_found_witness:
  "SentenceTransformer (demo_externals ''ok'') ''all-MiniLM-L6-v2'' = Inr ()
   \<and> kb_file \<lparr>index_file = None :: string index option, kb_file = None\<rparr> = None
   \<and> build_or_load_index (demo_externals ''ok'') \<lparr>index_file = None, kb_file = None\<rparr>
       = (Inl (FileNotFoundError ''products.txt''), \<lparr>index_file = None, kb_file = None\<rparr>)
   \<and> kb_file \<lparr>index_file = Some demo_index, kb_file = Some '' \<newline>''\<rparr> = Some '' \<newline>''
   \<and> index_file \<lparr>index_file = Some demo_index, kb_file = Some '' \<newline>''\<rparr> \<noteq> None
   \<and> (\<exists>idx product_texts. build_or_load_index (demo_externals ''ok'')
                \<lparr>index_file = Some demo_index, kb_file = Some '' \<newline>''\<rparr>
              = (Inr (idx, (), product_texts),
                 \<lparr>index_file = Some demo_index, kb_file = Some '' \<newline>''\<rparr>))"
proof -
  have r1: "\<forall>blob. index_file \<lparr>index_file = None, kb_file = None\<rparr> = Some blob
          \<longrightarrow> (\<exists>idx. read_index (demo_externals ''ok'') blob = Inr idx)"
    by simp
  have r2: "\<forall>blob. index_file \<lparr>index_file = Some demo_index, kb_file = Some '' \<newline>''\<rparr> = Some blob
          \<longrightarrow> (\<exists>idx. read_index (demo_externals ''ok'') blob = Inr idx)"
    by (simp add: demo_externals_def)
  show ?thesis
    using demo_model [of "''ok''"] r1 r2
      missing_corpus_raises_file_not_found [OF demo_model r1]
      missing_corpus_raises_file_not_found [OF demo_model r2, of "'' \<newline>''"]
    by simp
qed

text \<open>
  The claim as worded fails on both counts: the missing corpus does not raise a
  \<open>ConfigurationError\<close>, and a corpus that is empty after trimming and filtering is
  returned next to a persisted index.
\<close>

theorem missing_or_empty_corpus_counterexample:
  "fst (build_or_load_index (demo_externals ''ok'')
          \<lparr>index_file = None :: string index option, kb_file = None\<rparr>) \<noteq> Inl ConfigurationError
   \<and> fst (build_or_load_index (demo_externals ''ok'')
          \<lparr>index_file = Some demo_index, kb_file = Some '' \<newline>''\<rparr>)
       = Inr (demo_index, (), ['' \<newline>''])
   \<and> [str_strip t. t \<leftarrow> split_segments DELIMITER '' \<newline>'', str_strip t \<noteq> []] = []"
  by (simp add: load_demo build_or_load_index_missing_corpus [OF demo_model] eval_text)




end
